theory Spec2Isabelle
  imports Complex_Main
begin

section \<open>Exceptions, collaborators and the observable world\<close>

text \<open>
  The exceptions that can travel through \<open>console.py\<close>. \<open>Exit\<close> is
  \<open>click.exceptions.Exit\<close> (a \<open>RuntimeError\<close>, raised by click itself, for
  instance after printing \<open>--help\<close>). \<open>UsageError\<close> and \<open>BadParameter\<close> are the
  subclasses of \<open>click.ClickException\<close>: \<open>UsageError m\<close> stands for an error
  raised by click's own argument parser, carrying the text its \<open>format_message()\<close>
  gives; \<open>BadParameter m\<close> is \<open>BadParameter(m)\<close> as the console raises it, with
  neither a parameter nor a parameter hint. \<open>SystemExit\<close> is \<open>SystemExit()\<close>
  with no code (a \<open>BaseException\<close>). The remaining constructors are ordinary
  Python exceptions; \<open>CollaboratorError\<close> is anything else raised by the Service,
  a Machine, a container, the Connector or the runtime.
\<close>

datatype exn =
    Exit
  | UsageError string
  | BadParameter string
  | SystemExit
  | IndexError
  | KeyError
  | AttributeError
  | ValueError string
  | EOFError
  | CollaboratorError string

text \<open>The value bound to a \<open>type=float\<close> argument; it is only passed on.\<close>

type_synonym pyfloat = real

record machine_spec =
  name :: string
  fq_name :: string
  bolt_port :: nat
  http_port :: nat
  debug_port :: nat
  config :: "(string \<times> string) list"

text \<open>A live Machine: its spec and the \<open>short_id\<close> of its container.\<close>

record machine =
  spec :: machine_spec
  short_id :: string

text \<open>
  The Service. \<open>machines\<close> is the dict from MachineSpec to Machine, in insertion
  order; a value \<open>None\<close> is Python's \<open>None\<close> (no live instance). \<open>routers\<close> holds
  the \<open>profile\<close> of each element that \<open>service.routers()\<close> returns.
\<close>

record service =
  service_name :: string
  machines :: "(machine_spec \<times> machine option) list"
  routers :: "string list"

text \<open>
  Every call that leaves the console is an event. \<open>Prompt\<close>, \<open>ShlexSplit\<close> and
  \<open>Invoke\<close> record the steps of the read-eval loop itself.
\<close>

datatype event =
    Prompt
  | ShlexSplit string
  | Invoke "string list"
  | ContainerPause machine
  | Sleep pyfloat
  | ContainerUnpause machine
  | Ping machine
  | AddCore
  | AddReplica
  | Routers
  | NewConnector string
  | RefreshRoutingTable "string option"
  | Runners
  | GetRouterProfiles
  | ConnectorClose

text \<open>
  The world as the console changes it: the messages echoed to standard output and to
  the error stream, the calls made so far, and the attribute \<open>self.args\<close>.
\<close>

record world =
  out :: "string list"
  err :: "string list"
  trace :: "event list"
  args :: "string list option"

text \<open>
  The collaborators are opaque. \<open>fails\<close> says, from the calls made so far, whether
  a call raises; \<open>py_repr\<close> and \<open>py_str_float\<close> are Python's \<open>repr\<close> of a string
  and \<open>str\<close> of a float; the three profile lists are what the Connector reports,
  already turned into text.
\<close>

record env =
  fails :: "event list \<Rightarrow> event \<Rightarrow> exn option"
  py_repr :: "string \<Rightarrow> string"
  py_str_float :: "pyfloat \<Rightarrow> string"
  router_profiles :: "string list"
  ro_profiles :: "string list"
  rw_profiles :: "string list"

type_synonym 'a io = "world \<Rightarrow> (exn + 'a) \<times> world"

definition perform :: "env \<Rightarrow> event \<Rightarrow> unit io" where
  "perform E ev w =
     (let w' = w\<lparr>trace := trace w @ [ev]\<rparr>
      in case fails E (trace w) ev of
           None \<Rightarrow> (Inr (), w')
         | Some e \<Rightarrow> (Inl e, w'))"

definition echo :: "string \<Rightarrow> unit io" where
  "echo text w = (Inr (), w\<lparr>out := out w @ [text]\<rparr>)"

definition echo_err :: "string \<Rightarrow> unit io" where
  "echo_err text w = (Inr (), w\<lparr>err := err w @ [text]\<rparr>)"

section \<open>Target resolver\<close>

text \<open>\<open>self.service.machines[spec]\<close>: a missing key raises \<open>KeyError\<close>.\<close>

definition getitem_machines :: "(machine_spec \<times> 'v) list \<Rightarrow> machine_spec \<Rightarrow> exn + 'v" where
  "getitem_machines ms s = (case map_of ms s of None \<Rightarrow> Inl KeyError | Some v \<Rightarrow> Inr v)"

text \<open>\<open>if not name: name = "a"\<close>; an omitted optional argument is \<open>None\<close>.\<close>

definition default_name :: "string option \<Rightarrow> string" where
  "default_name n = (case n of None \<Rightarrow> ''a'' | Some t \<Rightarrow> if t = [] then ''a'' else t)"

text \<open>
  \<open>_iter_machines\<close>: the generator's yields in order, each one the outcome of the
  dict lookup for a key whose short or fully-qualified name is the token.
\<close>

definition iter_machines :: "service \<Rightarrow> string option \<Rightarrow> (exn + machine option) list" where
  "iter_machines svc n =
     (let n' = default_name n
      in map (getitem_machines (machines svc))
           (filter (\<lambda>s. n' = name s \<or> n' = fq_name s) (map fst (machines svc))))"

text \<open>\<open>_for_each_machine\<close>: the loop with its counter \<open>found\<close>.\<close>

fun for_each_loop :: "('m \<Rightarrow> unit io) \<Rightarrow> (exn + 'm) list \<Rightarrow> nat \<Rightarrow> nat io" where
  "for_each_loop f [] found w = (Inr found, w)"
| "for_each_loop f (y # ys) found w =
     (case y of
        Inl e \<Rightarrow> (Inl e, w)
      | Inr m \<Rightarrow>
          (case f m w of
             (Inl e, w') \<Rightarrow> (Inl e, w')
           | (Inr u, w') \<Rightarrow> for_each_loop f ys (found + 1) w'))"

definition for_each_machine :: "service \<Rightarrow> string option \<Rightarrow> (machine option \<Rightarrow> unit io) \<Rightarrow> nat io" where
  "for_each_machine svc n f w = for_each_loop f (iter_machines svc n) 0 w"

text \<open>
  The reference the resolver is compared with: the entries of the snapshot whose spec
  carries the token, and an action run once on each element of a list, in order, up
  to the first one that raises.
\<close>

definition matching :: "service \<Rightarrow> string \<Rightarrow> (machine_spec \<times> machine option) list" where
  "matching svc tok = filter (\<lambda>(s, m). tok = name s \<or> tok = fq_name s) (machines svc)"

fun apply_each :: "('m \<Rightarrow> unit io) \<Rightarrow> 'm list \<Rightarrow> unit io" where
  "apply_each f [] w = (Inr (), w)"
| "apply_each f (m # ms) w =
     (case f m w of
        (Inl e, w') \<Rightarrow> (Inl e, w')
      | (Inr u, w') \<Rightarrow> apply_each f ms w')"

section \<open>Tokenizer\<close>

text \<open>
  \<open>shlex.split(text)\<close> of Python's standard library, as the console calls it: POSIX
  mode, \<open>whitespace_split\<close> set, no comment characters. The lexer reads one character
  at a time in one of four states: between words (\<open>' '\<close>), in a word (\<open>'a'\<close>),
  inside a quotation (the quote character) and after a backslash (with the state to
  return to: \<open>None\<close> for \<open>'a'\<close>, the quote character otherwise). \<open>quoted\<close> and
  \<open>token\<close> are the lexer's variables of these names, \<open>acc\<close> the tokens already
  produced. At the end of the text an open quotation or a dangling backslash raises
  \<open>ValueError\<close>.
\<close>

definition whitespace :: "char list" where
  "whitespace = [CHR '' '', CHR 0x09, CHR 0x0D, CHR 0x0A]"

definition quotes :: "char list" where
  "quotes = [CHR 0x27, CHR 0x22]"

definition escape :: char where
  "escape = CHR 0x5C"

datatype lexstate = Blank | Word | Quote char | Escape "char option"

fun shlex_tokens :: "lexstate \<Rightarrow> bool \<Rightarrow> string \<Rightarrow> string list \<Rightarrow> string \<Rightarrow> exn + string list" where
  "shlex_tokens st quoted token acc [] =
     (case st of
        Quote q \<Rightarrow> Inl (ValueError ''No closing quotation'')
      | Escape es \<Rightarrow> Inl (ValueError ''No escaped character'')
      | _ \<Rightarrow> if token \<noteq> [] \<or> quoted then Inr (acc @ [token]) else Inr acc)"
| "shlex_tokens st quoted token acc (c # cs) =
     (case st of
        Blank \<Rightarrow>
          if c \<in> set whitespace then
            (if token \<noteq> [] \<or> quoted then shlex_tokens Blank False [] (acc @ [token]) cs
             else shlex_tokens Blank quoted token acc cs)
          else if c = escape then shlex_tokens (Escape None) quoted token acc cs
          else if c \<in> set quotes then shlex_tokens (Quote c) quoted token acc cs
          else shlex_tokens Word quoted [c] acc cs
      | Word \<Rightarrow>
          if c \<in> set whitespace then
            (if token \<noteq> [] \<or> quoted then shlex_tokens Blank False [] (acc @ [token]) cs
             else shlex_tokens Blank quoted token acc cs)
          else if c \<in> set quotes then shlex_tokens (Quote c) quoted token acc cs
          else if c = escape then shlex_tokens (Escape None) quoted token acc cs
          else shlex_tokens Word quoted (token @ [c]) acc cs
      | Quote q \<Rightarrow>
          if c = q then shlex_tokens Word True token acc cs
          else if c = escape \<and> q = CHR 0x22 then shlex_tokens (Escape (Some q)) True token acc cs
          else shlex_tokens (Quote q) True (token @ [c]) acc cs
      | Escape es \<Rightarrow>
          (let token' = (if es \<noteq> None \<and> c \<noteq> escape \<and> Some c \<noteq> es
                         then token @ [escape] else token)
           in shlex_tokens (case es of None \<Rightarrow> Word | Some q \<Rightarrow> Quote q)
                quoted (token' @ [c]) acc cs))"

definition shlex_split :: "string \<Rightarrow> exn + string list" where
  "shlex_split text = shlex_tokens Blank False [] [] text"

section \<open>Command registry and invocation\<close>

definition raise :: "exn \<Rightarrow> 'a io" where
  "raise e w = (Inl e, w)"

definition bind_io :: "'a io \<Rightarrow> ('a \<Rightarrow> 'b io) \<Rightarrow> 'b io" where
  "bind_io m k w = (case m w of (Inl e, w') \<Rightarrow> (Inl e, w') | (Inr x, w') \<Rightarrow> k x w')"

text \<open>
  A \<open>click.Context\<close> holds the bound parameters; \<open>f.invoke(ctx)\<close> runs the
  command's callback on them. A \<open>click.Command\<close> is known here by its
  \<open>make_context(arg0, args, obj=self)\<close>, which parses the raw arguments and may print
  and raise. An attribute of the console is a command or anything else.
\<close>

type_synonym ctx = "unit io"

type_synonym command = "string \<Rightarrow> string list \<Rightarrow> ctx io"

datatype attr = Command command | Other

text \<open>\<open>getattr(self, name)\<close>: \<open>None\<close> is \<open>AttributeError\<close>.\<close>

type_synonym console = "string \<Rightarrow> attr option"

text \<open>
  A command as the decorators build it: \<open>parse\<close> is click's parser for the declared
  parameters, \<open>callback\<close> the decorated function applied to what was bound.
\<close>

definition click_command :: "(string list \<Rightarrow> 'a io) \<Rightarrow> ('a \<Rightarrow> unit io) \<Rightarrow> command" where
  "click_command parse callback arg0 rest =
     bind_io (parse rest) (\<lambda>v w. (Inr (callback v), w))"

definition no_such_command :: "string \<Rightarrow> exn" where
  "no_such_command nm = BadParameter (''No such command '' @ [CHR 0x22] @ nm @ [CHR 0x22] @ ''.'')"

text \<open>\<open>__getitem__\<close>\<close>

definition getitem :: "console \<Rightarrow> string \<Rightarrow> exn + command" where
  "getitem con nm =
     (case con nm of
        None \<Rightarrow> Inl (no_such_command nm)
      | Some a \<Rightarrow> (case a of Command f \<Rightarrow> Inr f | Other \<Rightarrow> Inl (no_such_command nm)))"

text \<open>
  \<open>isinstance(error, ClickException)\<close>, and \<open>error.format_message()\<close>: a
  \<open>BadParameter\<close> with neither parameter nor hint is rendered with the prefix
  \<open>Invalid value: \<close>.
\<close>

fun is_click_exception :: "exn \<Rightarrow> bool" where
  "is_click_exception (UsageError m) = True"
| "is_click_exception (BadParameter m) = True"
| "is_click_exception e = False"

fun format_message :: "exn \<Rightarrow> string" where
  "format_message (BadParameter m) = ''Invalid value: '' @ m"
| "format_message (UsageError m) = m"
| "format_message e = []"

text \<open>The body of the \<open>try\<close> in \<open>invoke\<close>; \<open>args[0]\<close> of no arguments raises.\<close>

definition invoke_try :: "console \<Rightarrow> string list \<Rightarrow> unit io" where
  "invoke_try con a w =
     (case a of
        [] \<Rightarrow> (Inl IndexError, w)
      | arg0 # rest \<Rightarrow>
          (case getitem con arg0 of
             Inl e \<Rightarrow> (Inl e, w)
           | Inr f \<Rightarrow>
               (case f arg0 rest w of
                  (Inl e, w1) \<Rightarrow> (Inl e, w1)
                | (Inr c, w1) \<Rightarrow> c w1)))"

text \<open>\<open>invoke\<close>: the \<open>try\<close> with its two handlers, in their order.\<close>

definition invoke :: "console \<Rightarrow> string list \<Rightarrow> unit io" where
  "invoke con a w =
     (case invoke_try con a (w\<lparr>trace := trace w @ [Invoke a]\<rparr>) of
        (Inr u, w1) \<Rightarrow> (Inr (), w1)
      | (Inl e, w1) \<Rightarrow>
          if e = Exit then (Inr (), w1)
          else if is_click_exception e then echo_err (format_message e) w1
          else (Inl e, w1))"

section \<open>Read-eval loop\<close>

text \<open>
  \<open>run\<close> on the lines that standard input still holds; \<open>input()\<close> raises
  \<open>EOFError\<close> when none is left. The loop has no exit of its own, so the result
  is the exception that ends it.
\<close>

fun run :: "console \<Rightarrow> string list \<Rightarrow> world \<Rightarrow> exn \<times> world" where
  "run con [] w = (EOFError, w\<lparr>trace := trace w @ [Prompt]\<rparr>)"
| "run con (text # rest) w =
     (let w1 = w\<lparr>trace := trace w @ [Prompt]\<rparr>
      in if text \<noteq> [] then
           (let w2 = w1\<lparr>trace := trace w1 @ [ShlexSplit text]\<rparr>
            in case shlex_split text of
                 Inl e \<Rightarrow> (e, w2)
               | Inr toks \<Rightarrow>
                   (case invoke con toks (w2\<lparr>args := Some toks\<rparr>) of
                      (Inl e, w3) \<Rightarrow> (e, w3)
                    | (Inr u, w3) \<Rightarrow> run con rest w3))
         else run con rest w1)"

text \<open>
  The status of the process when the exception reaches the interpreter:
  \<open>SystemExit()\<close> carries no code and gives 0, any other exception gives 1.
\<close>

fun exit_status :: "exn \<Rightarrow> int" where
  "exit_status SystemExit = 0"
| "exit_status e = 1"

section \<open>Commands\<close>

definition exit :: "unit io" where
  "exit = raise SystemExit"

definition ljust :: "nat \<Rightarrow> string \<Rightarrow> string" where
  "ljust n s = s @ replicate (n - length s) (CHR '' '')"

text \<open>\<open>str\<close> of a non-negative integer: its decimal digits.\<close>

fun str_nat :: "nat \<Rightarrow> string" where
  "str_nat n =
     (if n < 10 then [''0123456789'' ! n]
      else str_nat (n div 10) @ [''0123456789'' ! (n mod 10)])"

declare str_nat.simps [simp del]

definition ls_header :: string where
  "ls_header = ''NAME        CONTAINER   MODE           '' @
               ''BOLT PORT   HTTP PORT   DEBUG PORT''"

text \<open>\<open>spec.config.get("dbms.mode", "SINGLE")\<close>\<close>

definition mode_of :: "machine_spec \<Rightarrow> string" where
  "mode_of s = (case map_of (config s) ''dbms.mode'' of None \<Rightarrow> ''SINGLE'' | Some v \<Rightarrow> v)"

definition ls_row :: "machine_spec \<Rightarrow> machine \<Rightarrow> string" where
  "ls_row s m =
     ljust 12 (fq_name s) @ ljust 12 (short_id m) @ ljust 15 (mode_of s) @
     ljust 12 (str_nat (bolt_port s)) @ ljust 12 (str_nat (http_port s)) @
     str_nat (debug_port s)"

text \<open>
  The loop of \<open>ls\<close> over \<open>machines.items()\<close>. The keys are MachineSpecs, so only
  the test \<open>machine is None\<close> can skip an entry.
\<close>

fun ls_loop :: "(machine_spec \<times> machine option) list \<Rightarrow> unit io" where
  "ls_loop [] w = (Inr (), w)"
| "ls_loop ((s, m) # rest) w =
     (case m of
        None \<Rightarrow> ls_loop rest w
      | Some mm \<Rightarrow> bind_io (echo (ls_row s mm)) (\<lambda>u. ls_loop rest) w)"

definition ls :: "service \<Rightarrow> bool \<Rightarrow> unit io" where
  "ls svc refresh = bind_io (echo ls_header) (\<lambda>u. ls_loop (machines svc))"

fun join_sp :: "string list \<Rightarrow> string" where
  "join_sp [] = []"
| "join_sp [x] = x"
| "join_sp (x # y # ys) = x @ '' '' @ join_sp (y # ys)"

definition rt :: "env \<Rightarrow> service \<Rightarrow> string option \<Rightarrow> unit io" where
  "rt E svc gdb =
     bind_io (perform E Routers) (\<lambda>u.
       case routers svc of
         [] \<Rightarrow> raise IndexError
       | r # rs \<Rightarrow>
     bind_io (perform E (NewConnector r)) (\<lambda>u.
     bind_io (echo (case gdb of
                None \<Rightarrow> ''Refreshing routing information for the default graph database...''
              | Some g \<Rightarrow> ''Refreshing routing information for graph database '' @
                          py_repr E g @ ''...'')) (\<lambda>u.
     bind_io (perform E (RefreshRoutingTable gdb)) (\<lambda>u.
     bind_io (perform E Runners) (\<lambda>u.
     bind_io (perform E GetRouterProfiles) (\<lambda>u.
     bind_io (echo (''Routers: '' @ join_sp (router_profiles E))) (\<lambda>u.
     bind_io (echo (''Readers: '' @ join_sp (ro_profiles E))) (\<lambda>u.
     bind_io (echo (''Writers: '' @ join_sp (rw_profiles E))) (\<lambda>u.
     perform E ConnectorClose)))))))))"


definition machine_not_found :: "env \<Rightarrow> string option \<Rightarrow> exn" where
  "machine_not_found E n =
     BadParameter (''Machine '' @ (case n of None \<Rightarrow> ''None'' | Some t \<Rightarrow> py_repr E t) @
                   '' not found'')"


definition invalid_mode :: exn where
  "invalid_mode = BadParameter (''Invalid value for '' @ [CHR 0x22] @ ''MODE'' @ [CHR 0x22] @
       '', choose from '' @ [CHR 0x22] @ ''core'' @ [CHR 0x22] @ '' or '' @
       [CHR 0x22] @ ''read-replica'' @ [CHR 0x22])"

definition add :: "env \<Rightarrow> string \<Rightarrow> unit io" where
  "add E mode =
     (if mode \<in> set [''c'', ''core''] then perform E AddCore
      else if mode \<in> set [''r'', ''rr'', ''replica'', ''read-replica'', ''read_replica'']
           then perform E AddReplica
      else raise invalid_mode)"

text \<open>
  The references for \<open>ls\<close> and \<open>pause\<close>: the entries of the snapshot whose
  Machine is present, and the calls that pausing one machine for a time consists of.
\<close>

fun live_entries :: "(machine_spec \<times> machine option) list \<Rightarrow> (machine_spec \<times> machine) list" where
  "live_entries [] = []"
| "live_entries ((s, None) # rest) = live_entries rest"
| "live_entries ((s, Some m) # rest) = (s, m) # live_entries rest"


section \<open>A concrete cluster\<close>

text \<open>
  A small cluster on which the results below are instantiated: specs \<open>a\<close>, \<open>b\<close>
  and \<open>c\<close>, of which only \<open>a\<close> and \<open>b\<close> are live; collaborators that never
  fail, and collaborators whose routing refresh for the database \<open>mydb\<close> fails.
\<close>

definition empty_world :: world where
  "empty_world = \<lparr>out = [], err = [], trace = [], args = None\<rparr>"

definition quiet_env :: env where
  "quiet_env = \<lparr>fails = (\<lambda>h ev. None), py_repr = (\<lambda>s. [CHR 0x27] @ s @ [CHR 0x27]),
     py_str_float = (\<lambda>t. ''2.0''), router_profiles = [''r1''], ro_profiles = [''ro1''],
     rw_profiles = [''rw1'']\<rparr>"

definition refresh_fails_env :: env where
  "refresh_fails_env = quiet_env\<lparr>fails := (\<lambda>h ev.
      if ev = RefreshRoutingTable (Some ''mydb'')
      then Some (CollaboratorError ''unavailable'') else None)\<rparr>"

definition spec_a :: machine_spec where
  "spec_a = \<lparr>name = ''a'', fq_name = ''a.x'', bolt_port = 7687, http_port = 7474,
     debug_port = 5005, config = []\<rparr>"

definition spec_b :: machine_spec where
  "spec_b = \<lparr>name = ''b'', fq_name = ''b.x'', bolt_port = 7688, http_port = 7475,
     debug_port = 5006, config = [(''dbms.mode'', ''CORE'')]\<rparr>"

definition spec_c :: machine_spec where
  "spec_c = \<lparr>name = ''c'', fq_name = ''c.x'', bolt_port = 7689, http_port = 7476,
     debug_port = 5007, config = []\<rparr>"

definition machine_a :: machine where
  "machine_a = \<lparr>spec = spec_a, short_id = ''aaa''\<rparr>"

definition machine_b :: machine where
  "machine_b = \<lparr>spec = spec_b, short_id = ''bbb''\<rparr>"

definition example_service :: service where
  "example_service = \<lparr>service_name = ''demo'',
     machines = [(spec_a, Some machine_a), (spec_b, Some machine_b), (spec_c, None)],
     routers = [''bolt://a'']\<rparr>"

text \<open>
  Two parsers standing for click's: one for a command without parameters, one for a
  command with one required argument; and a console with the commands \<open>exit\<close> and
  \<open>add\<close> and the plain method \<open>run\<close>.
\<close>

definition no_params :: "string list \<Rightarrow> unit io" where
  "no_params rest w =
     (if rest = [] then (Inr (), w) else (Inl (UsageError ''Got unexpected extra argument''), w))"

definition one_param :: "string list \<Rightarrow> string io" where
  "one_param rest w =
     (case rest of
        [v] \<Rightarrow> (Inr v, w)
      | _ \<Rightarrow> (Inl (UsageError ''Missing argument''), w))"

definition example_console :: console where
  "example_console nm =
     (if nm = ''exit'' then Some (Command (click_command no_params (\<lambda>v. exit)))
      else if nm = ''add'' then Some (Command (click_command one_param (add quiet_env)))
      else if nm = ''run'' then Some Other
      else None)"

text \<open>An action that prints the container id of the machine it is given.\<close>

definition show_machine :: "machine option \<Rightarrow> unit io" where
  "show_machine m = (case m of None \<Rightarrow> raise AttributeError | Some mm \<Rightarrow> echo (short_id mm))"

section \<open>Properties of the resolver\<close>

lemma getitem_machines_distinct:
  "distinct (map fst ms) \<Longrightarrow> (s, v) \<in> set ms \<Longrightarrow> getitem_machines ms s = Inr v"
  by (simp add: getitem_machines_def)

lemma map_getitem_filter:
  assumes "distinct (map fst ms)" and "set xs \<subseteq> set ms"
  shows "map (getitem_machines ms) (filter P (map fst xs))
       = map (\<lambda>p. Inr (snd p)) (filter (\<lambda>p. P (fst p)) xs)"
  using assms(2)
proof (induction xs)
  case Nil
  then show ?case by simp
next
  case (Cons x xs)
  obtain s v where x: "x = (s, v)" by (cases x)
  with Cons.prems have "(s, v) \<in> set ms" by simp
  then have "getitem_machines ms s = Inr v"
    by (rule getitem_machines_distinct [OF assms(1)])
  with Cons x show ?case by simp
qed

lemma iter_machines_matching:
  assumes "distinct (map fst (machines svc))"
  shows "iter_machines svc n = map (\<lambda>p. Inr (snd p)) (matching svc (default_name n))"
  using map_getitem_filter [OF assms subset_refl,
      of "\<lambda>s. default_name n = name s \<or> default_name n = fq_name s"]
  by (simp add: iter_machines_def matching_def Let_def split_def)

lemma for_each_loop_apply_each:
  "for_each_loop f (map (\<lambda>p. Inr (snd p)) ps) found w =
     (case apply_each f (map snd ps) w of
        (Inl e, w') \<Rightarrow> (Inl e, w')
      | (Inr u, w') \<Rightarrow> (Inr (found + length ps), w'))"
proof (induction ps arbitrary: found w)
  case Nil
  then show ?case by simp
next
  case (Cons p ps)
  show ?case
  proof (cases "f (snd p) w")
    case (Pair r w')
    then show ?thesis
      by (cases r) (simp_all add: Cons.IH split: prod.splits sum.splits)
  qed
qed

lemma matching_empty_iff:
  "(matching svc tok = []) = (\<forall>s \<in> set (map fst (machines svc)). tok \<noteq> name s \<and> tok \<noteq> fq_name s)"
  by (auto simp: matching_def filter_empty_conv)

lemma for_each_machine_apply_each:
  assumes "distinct (map fst (machines svc))"
  shows "for_each_machine svc n f w =
           (case apply_each f (map snd (matching svc (default_name n))) w of
              (Inl e, w') \<Rightarrow> (Inl e, w')
            | (Inr u, w') \<Rightarrow> (Inr (length (matching svc (default_name n))), w'))"
  using for_each_loop_apply_each [of f "matching svc (default_name n)" 0 w]
  by (simp add: for_each_machine_def iter_machines_matching [OF assms]
        split: prod.splits sum.splits)

lemma for_each_machine_zero:
  assumes "distinct (map fst (machines svc))"
  shows "(fst (for_each_machine svc n f w) = Inr 0) = (matching svc (default_name n) = [])"
proof
  let ?M = "matching svc (default_name n)"
  note eq = for_each_machine_apply_each [OF assms, of n f w]
  assume "fst (for_each_machine svc n f w) = Inr 0"
  then show "?M = []"
    unfolding eq by (cases "apply_each f (map snd ?M) w") (auto split: sum.splits)
next
  let ?M = "matching svc (default_name n)"
  note eq = for_each_machine_apply_each [OF assms, of n f w]
  assume "?M = []"
  then show "fst (for_each_machine svc n f w) = Inr 0"
    unfolding eq by simp
qed

lemma for_each_machine_token:
  assumes "distinct (map fst (machines svc))" and "default_name n = tok"
  shows "for_each_machine svc n f w =
           (case apply_each f
                   (map snd (filter (\<lambda>(s, m). tok = name s \<or> tok = fq_name s) (machines svc))) w of
              (Inl e, w') \<Rightarrow> (Inl e, w')
            | (Inr u, w') \<Rightarrow>
                (Inr (length (filter (\<lambda>(s, m). tok = name s \<or> tok = fq_name s) (machines svc))),
                 w'))
       \<and> ((fst (for_each_machine svc n f w) = Inr 0) =
            (\<forall>s \<in> set (map fst (machines svc)). tok \<noteq> name s \<and> tok \<noteq> fq_name s))"
proof -
  have m: "matching svc (default_name n) =
      filter (\<lambda>(s, m). tok = name s \<or> tok = fq_name s) (machines svc)"
    using assms(2) by (simp add: matching_def)
  show ?thesis
    using for_each_machine_apply_each [OF assms(1), of n f w, unfolded m]
          for_each_machine_zero [OF assms(1), of n f w, unfolded m]
          matching_empty_iff [of svc tok, unfolded matching_def]
    by blast
qed

text \<open>
  C1. On a snapshot with distinct keys, \<open>_for_each_machine\<close> with a non-empty token
  runs the action once on the machine of each entry whose short or fully-qualified
  name equals that token as typed, in the order of the snapshot, and returns the number
  of these entries unless the action raises; it returns 0 exactly when no spec carries
  the token. With the empty token, or none, the same holds for the token \<open>a\<close>.
\<close>

theorem for_each_machine_counts_matches:
  assumes "distinct (map fst (machines svc))"
  shows "(t \<noteq> [] \<longrightarrow>
          for_each_machine svc (Some t) f w =
            (case apply_each f
                    (map snd (filter (\<lambda>(s, m). t = name s \<or> t = fq_name s) (machines svc))) w of
               (Inl e, w') \<Rightarrow> (Inl e, w')
             | (Inr u, w') \<Rightarrow>
                 (Inr (length (filter (\<lambda>(s, m). t = name s \<or> t = fq_name s) (machines svc))),
                  w'))
          \<and> ((fst (for_each_machine svc (Some t) f w) = Inr 0) =
               (\<forall>s \<in> set (map fst (machines svc)). t \<noteq> name s \<and> t \<noteq> fq_name s)))
       \<and> (n = None \<or> n = Some [] \<longrightarrow>
          for_each_machine svc n f w =
            (case apply_each f
                    (map snd (filter (\<lambda>(s, m). ''a'' = name s \<or> ''a'' = fq_name s)
                                (machines svc))) w of
               (Inl e, w') \<Rightarrow> (Inl e, w')
             | (Inr u, w') \<Rightarrow>
                 (Inr (length (filter (\<lambda>(s, m). ''a'' = name s \<or> ''a'' = fq_name s)
                                 (machines svc))),
                  w'))
          \<and> ((fst (for_each_machine svc n f w) = Inr 0) =
               (\<forall>s \<in> set (map fst (machines svc)). ''a'' \<noteq> name s \<and> ''a'' \<noteq> fq_name s)))"
proof (intro conjI impI)
  assume "t \<noteq> []"
  then have d: "default_name (Some t) = t"
    by (simp add: default_name_def)
  from for_each_machine_token [OF assms d, of f w]
  show "for_each_machine svc (Some t) f w =
            (case apply_each f
                    (map snd (filter (\<lambda>(s, m). t = name s \<or> t = fq_name s) (machines svc))) w of
               (Inl e, w') \<Rightarrow> (Inl e, w')
             | (Inr u, w') \<Rightarrow>
                 (Inr (length (filter (\<lambda>(s, m). t = name s \<or> t = fq_name s) (machines svc))),
                  w'))"
    and "(fst (for_each_machine svc (Some t) f w) = Inr 0) =
               (\<forall>s \<in> set (map fst (machines svc)). t \<noteq> name s \<and> t \<noteq> fq_name s)"
    by blast+
next
  assume "n = None \<or> n = Some []"
  then have d: "default_name n = ''a''"
    by (auto simp: default_name_def)
  from for_each_machine_token [OF assms d, of f w]
  show "for_each_machine svc n f w =
            (case apply_each f
                    (map snd (filter (\<lambda>(s, m). ''a'' = name s \<or> ''a'' = fq_name s)
                                (machines svc))) w of
               (Inl e, w') \<Rightarrow> (Inl e, w')
             | (Inr u, w') \<Rightarrow>
                 (Inr (length (filter (\<lambda>(s, m). ''a'' = name s \<or> ''a'' = fq_name s)
                                 (machines svc))),
                  w'))"
    and "(fst (for_each_machine svc n f w) = Inr 0) =
               (\<forall>s \<in> set (map fst (machines svc)). ''a'' \<noteq> name s \<and> ''a'' \<noteq> fq_name s)"
    by blast+
qed

lemmas example_defs =
  empty_world_def quiet_env_def refresh_fails_env_def spec_a_def spec_b_def spec_c_def
  machine_a_def machine_b_def example_service_def

theorem for_each_machine_counts_matches_witness:
  "distinct (map fst (machines example_service)) \<and>
   for_each_machine example_service (Some ''b.x'') show_machine empty_world
     = (Inr 1, empty_world\<lparr>out := [''bbb'']\<rparr>) \<and>
   for_each_machine example_service (Some ''b'') show_machine empty_world
     = (Inr 1, empty_world\<lparr>out := [''bbb'']\<rparr>) \<and>
   for_each_machine example_service (Some ''zzz'') show_machine empty_world
     = (Inr 0, empty_world) \<and>
   for_each_machine example_service (Some []) show_machine empty_world
     = (Inr 1, empty_world\<lparr>out := [''aaa'']\<rparr>) \<and>
   for_each_machine example_service None show_machine empty_world
     = (Inr 1, empty_world\<lparr>out := [''aaa'']\<rparr>)"
proof -
  have d: "distinct (map fst (machines example_service))"
    by (simp add: example_defs)
  show ?thesis
    using d
      for_each_machine_counts_matches [OF d, of "''b.x''" show_machine empty_world "Some []"]
      for_each_machine_counts_matches [OF d, of "''b''" show_machine empty_world None]
      for_each_machine_counts_matches [OF d, of "''zzz''" show_machine empty_world None]
    by (simp add: example_defs show_machine_def echo_def)
qed

text \<open>
  C7. Resolving the empty token yields the same sequence of machines as resolving the
  token \<open>a\<close>, on every snapshot, and so does applying an action through either.
\<close>

theorem iter_machines_empty_token_is_a:
  "iter_machines svc (Some []) = iter_machines svc (Some ''a'')
   \<and> for_each_machine svc (Some []) f w = for_each_machine svc (Some ''a'') f w"
  by (simp add: iter_machines_def for_each_machine_def default_name_def)

section \<open>Properties of the read-eval loop and of invocation\<close>

lemma shlex_tokens_whitespace:
  "set cs \<subseteq> set whitespace \<Longrightarrow> shlex_tokens Blank False [] acc cs = Inr acc"
  by (induction cs) simp_all

lemma shlex_split_whitespace:
  "set text \<subseteq> set whitespace \<Longrightarrow> shlex_split text = Inr []"
  by (simp add: shlex_split_def shlex_tokens_whitespace)

lemma invoke_Nil: "invoke con [] w = (Inl IndexError, w\<lparr>trace := trace w @ [Invoke []]\<rparr>)"
  by (simp add: invoke_def invoke_try_def)

text \<open>
  C10. \<open>invoke\<close> with no tokens raises \<open>IndexError\<close>, which neither handler
  catches: nothing is written to the error stream. A non-empty line of whitespace
  only is tokenized to no tokens, so the loop calls \<open>invoke\<close> with none and ends with
  this \<open>IndexError\<close>, the rest of the input unread.
\<close>

theorem invoke_no_tokens_raises_IndexError:
  "invoke con [] w = (Inl IndexError, w\<lparr>trace := trace w @ [Invoke []]\<rparr>)
   \<and> (text \<noteq> [] \<and> set text \<subseteq> set whitespace \<longrightarrow>
        run con (text # rest) w =
          (IndexError,
           w\<lparr>trace := trace w @ [Prompt, ShlexSplit text, Invoke []], args := Some []\<rparr>))"
  by (simp add: invoke_Nil shlex_split_whitespace Let_def)

theorem invoke_no_tokens_raises_IndexError_witness:
  "run (\<lambda>nm. None) ([CHR 0x09, CHR '' ''] # [''ls'']) empty_world =
     (IndexError,
      \<lparr>out = [], err = [],
       trace = [Prompt, ShlexSplit [CHR 0x09, CHR '' ''], Invoke []], args = Some []\<rparr>)"
  using invoke_no_tokens_raises_IndexError
          [of "\<lambda>nm. None" empty_world "[CHR 0x09, CHR '' '']" "[''ls'']"]
  by (simp add: example_defs whitespace_def)

text \<open>
  C3. The line of one space is empty after trimming, yet the loop tokenizes it and
  calls \<open>invoke\<close> on the result; the call raises \<open>IndexError\<close> and the loop ends
  instead of prompting again.
\<close>

theorem run_dispatches_blank_line:
  "run con ('' '' # rest) w =
     (IndexError,
      w\<lparr>trace := trace w @ [Prompt, ShlexSplit '' '', Invoke []], args := Some []\<rparr>)"
  by (simp add: shlex_split_def whitespace_def invoke_def invoke_try_def Let_def)

lemma invoke_click_exception:
  assumes "invoke_try con a (w\<lparr>trace := trace w @ [Invoke a]\<rparr>) = (Inl e, w1)"
    and "is_click_exception e"
  shows "invoke con a w = (Inr (), w1\<lparr>err := err w1 @ [format_message e]\<rparr>)"
proof -
  from assms(2) have "e \<noteq> Exit" by auto
  with assms show ?thesis by (simp add: invoke_def echo_err_def)
qed

lemma invoke_try_unknown:
  "con arg0 = None \<or> con arg0 = Some Other \<Longrightarrow>
   invoke_try con (arg0 # rest) w = (Inl (no_such_command arg0), w)"
  by (auto simp: invoke_try_def getitem_def)

lemma run_step:
  "text \<noteq> [] \<Longrightarrow> shlex_split text = Inr a \<Longrightarrow>
   run con (text # later) w =
     (case invoke con a (w\<lparr>trace := trace w @ [Prompt, ShlexSplit text], args := Some a\<rparr>) of
        (Inl e, w3) \<Rightarrow> (e, w3)
      | (Inr u, w3) \<Rightarrow> run con later w3)"
  by (simp add: Let_def)

text \<open>
  C4. For a non-empty token sequence, a \<open>ClickException\<close> raised anywhere in the
  \<open>try\<close> of \<open>invoke\<close> (by the lookup of the command, by the binding of the
  arguments or by the command's body) is caught: \<open>invoke\<close> returns normally and the
  error stream gains exactly one message, the error's \<open>format_message()\<close>. A first
  token that is no command of the console gives the one message \<open>No such command\<close>
  with the token. The machine-not-found and invalid-mode errors of the commands are
  \<open>ClickException\<close>s. In the loop, the next line is read afterwards.
\<close>

theorem invoke_reports_user_errors:
  "(invoke_try con (arg0 # rest) (w\<lparr>trace := trace w @ [Invoke (arg0 # rest)]\<rparr>) = (Inl e, w1)
      \<and> is_click_exception e \<longrightarrow>
    invoke con (arg0 # rest) w = (Inr (), w1\<lparr>err := err w1 @ [format_message e]\<rparr>))
 \<and> (con arg0 = None \<or> con arg0 = Some Other \<longrightarrow>
    invoke con (arg0 # rest) w =
      (Inr (), w\<lparr>trace := trace w @ [Invoke (arg0 # rest)],
                 err := err w @ [''Invalid value: No such command '' @ [CHR 0x22] @ arg0 @
                                 [CHR 0x22] @ ''.'']\<rparr>))
 \<and> is_click_exception (no_such_command arg0)
 \<and> is_click_exception (machine_not_found E n)
 \<and> is_click_exception invalid_mode
 \<and> (text \<noteq> [] \<and> shlex_split text = Inr (arg0 # rest)
      \<and> invoke_try con (arg0 # rest)
           (w\<lparr>trace := trace w @ [Prompt, ShlexSplit text, Invoke (arg0 # rest)],
              args := Some (arg0 # rest)\<rparr>) = (Inl e, w1)
      \<and> is_click_exception e \<longrightarrow>
    run con (text # later) w = run con later (w1\<lparr>err := err w1 @ [format_message e]\<rparr>))"
proof -
  have a: "invoke_try con (arg0 # rest) (w\<lparr>trace := trace w @ [Invoke (arg0 # rest)]\<rparr>) = (Inl e, w1)
      \<and> is_click_exception e \<longrightarrow>
    invoke con (arg0 # rest) w = (Inr (), w1\<lparr>err := err w1 @ [format_message e]\<rparr>)"
    using invoke_click_exception by blast
  have b: "con arg0 = None \<or> con arg0 = Some Other \<longrightarrow>
    invoke con (arg0 # rest) w =
      (Inr (), w\<lparr>trace := trace w @ [Invoke (arg0 # rest)],
                 err := err w @ [''Invalid value: No such command '' @ [CHR 0x22] @ arg0 @
                                 [CHR 0x22] @ ''.'']\<rparr>)"
  proof
    assume u: "con arg0 = None \<or> con arg0 = Some Other"
    have "invoke con (arg0 # rest) w =
        (Inr (), (w\<lparr>trace := trace w @ [Invoke (arg0 # rest)]\<rparr>)
                   \<lparr>err := err (w\<lparr>trace := trace w @ [Invoke (arg0 # rest)]\<rparr>) @
                      [format_message (no_such_command arg0)]\<rparr>)"
      using u by (intro invoke_click_exception) (simp_all add: invoke_try_unknown no_such_command_def)
    then show "invoke con (arg0 # rest) w =
      (Inr (), w\<lparr>trace := trace w @ [Invoke (arg0 # rest)],
                 err := err w @ [''Invalid value: No such command '' @ [CHR 0x22] @ arg0 @
                                 [CHR 0x22] @ ''.'']\<rparr>)"
      by (simp add: no_such_command_def)
  qed
  have c: "is_click_exception (no_such_command arg0) \<and> is_click_exception (machine_not_found E n)
      \<and> is_click_exception invalid_mode"
    by (simp add: no_such_command_def machine_not_found_def invalid_mode_def)
  have d: "text \<noteq> [] \<and> shlex_split text = Inr (arg0 # rest)
      \<and> invoke_try con (arg0 # rest)
           (w\<lparr>trace := trace w @ [Prompt, ShlexSplit text, Invoke (arg0 # rest)],
              args := Some (arg0 # rest)\<rparr>) = (Inl e, w1)
      \<and> is_click_exception e \<longrightarrow>
    run con (text # later) w = run con later (w1\<lparr>err := err w1 @ [format_message e]\<rparr>)"
  proof
    assume h: "text \<noteq> [] \<and> shlex_split text = Inr (arg0 # rest)
      \<and> invoke_try con (arg0 # rest)
           (w\<lparr>trace := trace w @ [Prompt, ShlexSplit text, Invoke (arg0 # rest)],
              args := Some (arg0 # rest)\<rparr>) = (Inl e, w1)
      \<and> is_click_exception e"
    let ?W = "w\<lparr>trace := trace w @ [Prompt, ShlexSplit text], args := Some (arg0 # rest)\<rparr>"
    have "?W\<lparr>trace := trace ?W @ [Invoke (arg0 # rest)]\<rparr> =
          w\<lparr>trace := trace w @ [Prompt, ShlexSplit text, Invoke (arg0 # rest)],
            args := Some (arg0 # rest)\<rparr>"
      by simp
    with h have "invoke_try con (arg0 # rest) (?W\<lparr>trace := trace ?W @ [Invoke (arg0 # rest)]\<rparr>)
          = (Inl e, w1)"
      by metis
    with h have "invoke con (arg0 # rest) ?W = (Inr (), w1\<lparr>err := err w1 @ [format_message e]\<rparr>)"
      by (intro invoke_click_exception) blast+
    with h show "run con (text # later) w = run con later (w1\<lparr>err := err w1 @ [format_message e]\<rparr>)"
      by (simp add: run_step)
  qed
  from a b c d show ?thesis by blast
qed

theorem invoke_reports_user_errors_witness:
  "invoke example_console [''foo''] empty_world =
     (Inr (), \<lparr>out = [],
               err = [''Invalid value: No such command '' @ [CHR 0x22] @ ''foo'' @ [CHR 0x22] @ ''.''],
               trace = [Invoke [''foo'']], args = None\<rparr>)
   \<and> invoke example_console [''add'', ''bogus''] empty_world =
     (Inr (), \<lparr>out = [], err = [format_message invalid_mode],
               trace = [Invoke [''add'', ''bogus'']], args = None\<rparr>)
   \<and> invoke example_console [''add''] empty_world =
     (Inr (), \<lparr>out = [], err = [''Missing argument''],
               trace = [Invoke [''add'']], args = None\<rparr>)"
  using invoke_reports_user_errors [of example_console "''foo''" "[]" empty_world
          "no_such_command ''foo''" "empty_world\<lparr>trace := [Invoke [''foo'']]\<rparr>"]
        invoke_reports_user_errors [of example_console "''add''" "[''bogus'']" empty_world
          invalid_mode "empty_world\<lparr>trace := [Invoke [''add'', ''bogus'']]\<rparr>"]
        invoke_reports_user_errors [of example_console "''add''" "[]" empty_world
          "UsageError ''Missing argument''" "empty_world\<lparr>trace := [Invoke [''add'']]\<rparr>"]
  by (simp add: example_console_def invoke_try_def getitem_def click_command_def bind_io_def
        one_param_def add_def raise_def empty_world_def no_such_command_def)

lemma invoke_uncaught:
  assumes "invoke_try con a (w\<lparr>trace := trace w @ [Invoke a]\<rparr>) = (Inl e, w1)"
    and "e \<noteq> Exit" and "\<not> is_click_exception e"
  shows "invoke con a w = (Inl e, w1)"
  using assms by (simp add: invoke_def)

lemma invoke_try_exit:
  assumes "con ''exit'' = Some (Command (click_command parse (\<lambda>v. exit)))"
    and "parse rest w = (Inr v, w1)"
  shows "invoke_try con (''exit'' # rest) w = (Inl SystemExit, w1)"
  using assms
  by (simp add: invoke_try_def getitem_def click_command_def bind_io_def exit_def raise_def)

text \<open>
  C5. The body of \<open>exit\<close> raises \<open>SystemExit\<close>. An exception raised in the
  \<open>try\<close> of \<open>invoke\<close> that is neither click's \<open>Exit\<close> nor a
  \<open>ClickException\<close> (so \<open>SystemExit\<close>, and any error of a collaborator) leaves
  \<open>invoke\<close> uncaught and ends the loop with the later lines unread; \<open>SystemExit\<close>
  gives the process status 0. In particular \<open>invoke\<close> of \<open>exit\<close>, once click has
  bound its arguments, raises \<open>SystemExit\<close>.
\<close>

theorem exit_signal_ends_the_loop:
  "exit w = (Inl SystemExit, w)
 \<and> SystemExit \<noteq> Exit \<and> \<not> is_click_exception SystemExit \<and> exit_status SystemExit = 0
 \<and> CollaboratorError msg \<noteq> Exit \<and> \<not> is_click_exception (CollaboratorError msg)
 \<and> (invoke_try con a (w\<lparr>trace := trace w @ [Invoke a]\<rparr>) = (Inl e, w1)
      \<and> e \<noteq> Exit \<and> \<not> is_click_exception e \<longrightarrow>
    invoke con a w = (Inl e, w1))
 \<and> (text \<noteq> [] \<and> shlex_split text = Inr a
      \<and> invoke_try con a
           (w\<lparr>trace := trace w @ [Prompt, ShlexSplit text, Invoke a], args := Some a\<rparr>)
          = (Inl e, w1)
      \<and> e \<noteq> Exit \<and> \<not> is_click_exception e \<longrightarrow>
    run con (text # later) w = (e, w1))
 \<and> (con ''exit'' = Some (Command (click_command parse (\<lambda>v. exit)))
      \<and> parse rest (w\<lparr>trace := trace w @ [Invoke (''exit'' # rest)]\<rparr>) = (Inr v, w1) \<longrightarrow>
    invoke con (''exit'' # rest) w = (Inl SystemExit, w1))"
proof -
  have a: "exit w = (Inl SystemExit, w)"
    by (simp add: exit_def raise_def)
  have b: "invoke_try con a (w\<lparr>trace := trace w @ [Invoke a]\<rparr>) = (Inl e, w1)
      \<and> e \<noteq> Exit \<and> \<not> is_click_exception e \<longrightarrow>
    invoke con a w = (Inl e, w1)"
    using invoke_uncaught by blast
  have c: "text \<noteq> [] \<and> shlex_split text = Inr a
      \<and> invoke_try con a
           (w\<lparr>trace := trace w @ [Prompt, ShlexSplit text, Invoke a], args := Some a\<rparr>)
          = (Inl e, w1)
      \<and> e \<noteq> Exit \<and> \<not> is_click_exception e \<longrightarrow>
    run con (text # later) w = (e, w1)"
  proof
    assume h: "text \<noteq> [] \<and> shlex_split text = Inr a
      \<and> invoke_try con a
           (w\<lparr>trace := trace w @ [Prompt, ShlexSplit text, Invoke a], args := Some a\<rparr>)
          = (Inl e, w1)
      \<and> e \<noteq> Exit \<and> \<not> is_click_exception e"
    let ?W = "w\<lparr>trace := trace w @ [Prompt, ShlexSplit text], args := Some a\<rparr>"
    have "?W\<lparr>trace := trace ?W @ [Invoke a]\<rparr> =
          w\<lparr>trace := trace w @ [Prompt, ShlexSplit text, Invoke a], args := Some a\<rparr>"
      by simp
    with h have "invoke_try con a (?W\<lparr>trace := trace ?W @ [Invoke a]\<rparr>) = (Inl e, w1)"
      by metis
    with h have "invoke con a ?W = (Inl e, w1)"
      by (intro invoke_uncaught) blast+
    with h show "run con (text # later) w = (e, w1)"
      by (simp add: run_step)
  qed
  have d: "con ''exit'' = Some (Command (click_command parse (\<lambda>v. exit)))
      \<and> parse rest (w\<lparr>trace := trace w @ [Invoke (''exit'' # rest)]\<rparr>) = (Inr v, w1) \<longrightarrow>
    invoke con (''exit'' # rest) w = (Inl SystemExit, w1)"
  proof
    assume h: "con ''exit'' = Some (Command (click_command parse (\<lambda>v. exit)))
      \<and> parse rest (w\<lparr>trace := trace w @ [Invoke (''exit'' # rest)]\<rparr>) = (Inr v, w1)"
    then have "invoke_try con (''exit'' # rest) (w\<lparr>trace := trace w @ [Invoke (''exit'' # rest)]\<rparr>)
        = (Inl SystemExit, w1)"
      by (intro invoke_try_exit) blast+
    then show "invoke con (''exit'' # rest) w = (Inl SystemExit, w1)"
      by (intro invoke_uncaught) simp_all
  qed
  from a b c d show ?thesis by simp
qed

theorem exit_signal_ends_the_loop_witness:
  "run example_console [''exit'', ''add core''] empty_world =
     (SystemExit, \<lparr>out = [], err = [],
                   trace = [Prompt, ShlexSplit ''exit'', Invoke [''exit'']],
                   args = Some [''exit'']\<rparr>)
   \<and> exit_status (fst (run example_console [''exit'', ''add core''] empty_world)) = 0"
proof -
  have s: "shlex_split ''exit'' = Inr [''exit'']"
    by (simp add: shlex_split_def whitespace_def quotes_def escape_def)
  have t: "invoke_try example_console [''exit'']
             (empty_world\<lparr>trace := trace empty_world @ [Prompt, ShlexSplit ''exit'', Invoke [''exit'']],
                args := Some [''exit'']\<rparr>)
           = (Inl SystemExit,
              \<lparr>out = [], err = [], trace = [Prompt, ShlexSplit ''exit'', Invoke [''exit'']],
               args = Some [''exit'']\<rparr>)"
    by (simp add: invoke_try_def getitem_def example_console_def click_command_def bind_io_def
          no_params_def exit_def raise_def empty_world_def)
  show ?thesis
    using s t exit_signal_ends_the_loop [of empty_world msg example_console "[''exit'']" SystemExit
        "\<lparr>out = [], err = [], trace = [Prompt, ShlexSplit ''exit'', Invoke [''exit'']],
          args = Some [''exit'']\<rparr>" "''exit''" "[''add core'']" no_params "[]" "()"]
    by (simp del: run.simps)
qed

section \<open>Properties of the commands\<close>

text \<open>
  C2. When the routing refresh for \<open>mydb\<close> raises, \<open>rt\<close> raises the same error
  after three calls: it has asked for the routers, built the connector and asked for the
  refresh, and it has not closed the connector.
\<close>

theorem rt_leaves_connector_open:
  "fst (rt refresh_fails_env example_service (Some ''mydb'') empty_world)
     = Inl (CollaboratorError ''unavailable'')
   \<and> trace (snd (rt refresh_fails_env example_service (Some ''mydb'') empty_world))
       = [Routers, NewConnector ''bolt://a'', RefreshRoutingTable (Some ''mydb'')]
   \<and> ConnectorClose \<notin>
       set (trace (snd (rt refresh_fails_env example_service (Some ''mydb'') empty_world)))"
  by (simp add: rt_def bind_io_def perform_def echo_def example_defs Let_def)

text \<open>
  C8. \<open>add\<close> with mode \<open>c\<close> or \<open>core\<close> makes exactly the call
  \<open>Service.add_core()\<close>; with mode \<open>r\<close>, \<open>rr\<close>, \<open>replica\<close>,
  \<open>read-replica\<close> or \<open>read_replica\<close> exactly the call \<open>Service.add_replica()\<close>;
  with any other mode it raises the parameter error whose text names \<open>core\<close> and
  \<open>read-replica\<close>, and leaves the world as it was.
\<close>

theorem add_maps_mode:
  "(mode \<in> {''c'', ''core''} \<longrightarrow> add E mode w = perform E AddCore w
       \<and> trace (snd (add E mode w)) = trace w @ [AddCore])
 \<and> (mode \<in> {''r'', ''rr'', ''replica'', ''read-replica'', ''read_replica''} \<longrightarrow>
       add E mode w = perform E AddReplica w
       \<and> trace (snd (add E mode w)) = trace w @ [AddReplica])
 \<and> (mode \<notin> {''c'', ''core'', ''r'', ''rr'', ''replica'', ''read-replica'', ''read_replica''} \<longrightarrow>
       add E mode w =
         (Inl (BadParameter (''Invalid value for '' @ [CHR 0x22] @ ''MODE'' @ [CHR 0x22] @
            '', choose from '' @ [CHR 0x22] @ ''core'' @ [CHR 0x22] @ '' or '' @
            [CHR 0x22] @ ''read-replica'' @ [CHR 0x22])), w))"
  by (auto simp: add_def perform_def raise_def invalid_mode_def Let_def split: option.splits)

theorem add_maps_mode_witness:
  "trace (snd (add quiet_env ''core'' empty_world)) = [AddCore]
   \<and> trace (snd (add quiet_env ''rr'' empty_world)) = [AddReplica]
   \<and> snd (add quiet_env ''bogus-mode'' empty_world) = empty_world
   \<and> is_click_exception
       (case fst (add quiet_env ''bogus-mode'' empty_world) of Inl e \<Rightarrow> e | Inr u \<Rightarrow> Exit)"
  using add_maps_mode [of "''core''" quiet_env empty_world]
        add_maps_mode [of "''rr''" quiet_env empty_world]
        add_maps_mode [of "''bogus-mode''" quiet_env empty_world]
  by (simp add: perform_def Let_def example_defs)

lemma ls_loop_rows:
  "ls_loop ms w = (Inr (), w\<lparr>out := out w @ map (\<lambda>(s, m). ls_row s m) (live_entries ms)\<rparr>)"
proof (induction ms arbitrary: w rule: live_entries.induct)
  case 1
  then show ?case by simp
next
  case (2 s rest)
  then show ?case by simp
next
  case (3 s m rest)
  then show ?case by (simp add: bind_io_def echo_def)
qed

lemma length_live_entries:
  "length (live_entries ms) = length (filter (\<lambda>p. snd p \<noteq> None) ms)"
  by (induction ms rule: live_entries.induct) simp_all

text \<open>
  C9. \<open>ls\<close> returns normally, writes nothing to the error stream and prints the
  header followed by exactly one row for each entry of the snapshot whose Machine is
  present, in order; entries without a Machine give no output. The mode column of a row
  is the configured \<open>dbms.mode\<close>, and \<open>SINGLE\<close> when the configuration has no such
  entry.
\<close>

theorem ls_prints_live_rows:
  "ls svc refresh w =
     (Inr (), w\<lparr>out := out w @ ls_header # map (\<lambda>(s, m). ls_row s m) (live_entries (machines svc))\<rparr>)
 \<and> length (live_entries (machines svc)) = length (filter (\<lambda>p. snd p \<noteq> None) (machines svc))
 \<and> ls_row s m =
     ljust 12 (fq_name s) @ ljust 12 (short_id m) @
     ljust 15 (case map_of (config s) ''dbms.mode'' of None \<Rightarrow> ''SINGLE'' | Some v \<Rightarrow> v) @
     ljust 12 (str_nat (bolt_port s)) @ ljust 12 (str_nat (http_port s)) @
     str_nat (debug_port s)"
  by (simp add: ls_def bind_io_def echo_def ls_loop_rows length_live_entries ls_row_def mode_of_def)

theorem ls_prints_live_rows_witness:
  "ls example_service False empty_world =
     (Inr (), \<lparr>out = [''NAME        CONTAINER   MODE           BOLT PORT   HTTP PORT   DEBUG PORT'',
                       ''a.x         aaa         SINGLE         7687        7474        5005'',
                       ''b.x         bbb         CORE           7688        7475        5006''],
               err = [], trace = [], args = None\<rparr>)"
proof -
  have row_a: "ls_row spec_a machine_a =
      ''a.x         aaa         SINGLE         7687        7474        5005''"
    by (simp add: ls_row_def mode_of_def ljust_def str_nat.simps example_defs)
       (simp add: eval_nat_numeral)
  have row_b: "ls_row spec_b machine_b =
      ''b.x         bbb         CORE           7688        7475        5006''"
    by (simp add: ls_row_def mode_of_def ljust_def str_nat.simps example_defs)
       (simp add: eval_nat_numeral)
  have header: "ls_header =
      ''NAME        CONTAINER   MODE           BOLT PORT   HTTP PORT   DEBUG PORT''"
    by (simp add: ls_header_def)
  have live: "live_entries (machines example_service) = [(spec_a, machine_a), (spec_b, machine_b)]"
    by (simp add: example_service_def)
  from ls_prints_live_rows [of example_service False empty_world spec_a machine_a]
  have "ls example_service False empty_world =
     (Inr (), empty_world\<lparr>out := out empty_world @ ls_header #
        map (\<lambda>(s, m). ls_row s m) (live_entries (machines example_service))\<rparr>)"
    by blast
  then show ?thesis
    by (simp add: live row_a row_b header empty_world_def)
qed








end
